theory Spec2Isabelle
  imports Main "HOL-Library.Sublist"
begin

section \<open>The Pokedex application (src/App.tsx): data model\<close>

text \<open>
  The application is one React component. Its state is five \<open>useState\<close> cells, its
  logic is three asynchronous functions (\<open>fetchPokemonDetail\<close>,
  \<open>fetchInitialDisplayData\<close>, \<open>fetchAllUrls\<close>), two effects, the input handler
  \<open>handleSearchChange\<close> and the memoised view \<open>filteredPokemon\<close>.

  Modelling decisions:
  \<^item> The remote API is a value of type \<open>api\<close>: one function per endpoint, from the
    request to what \<open>fetch\<close> does with it. A response depends on the request only.
  \<^item> \<open>fetch\<close> either rejects (\<open>NetworkError\<close>) or resolves to a response with
    \<open>ok\<close>, \<open>status\<close> and a body. The body is \<open>None\<close> when \<open>res.json()\<close> throws;
    otherwise it has the schema the TypeScript interfaces declare.
  \<^item> Every function returns, next to its result, the list of requests it issued.
    Inside one hydration the order is the order of the \<open>await\<close>s. For a batch started
    through \<open>Promise.all\<close> each hydration's requests are listed together, entry after
    entry; the detail requests are issued in that order by \<open>map\<close>.
  \<^item> A function that runs without an \<open>await\<close> is one transition: its updates are
    rendered together. \<open>fetchAllUrls\<close> and \<open>fetchInitialDisplayData\<close> run from an
    effect are one transition each, to the state after their last update.
  \<^item> At an \<open>await\<close> of the input handler the component renders the updates made so
    far, and the second effect runs if one of its dependencies has changed
    (\<open>effectAtAwait\<close>). A batch that the effect starts there is issued after the
    handler's own requests and waits for every entry of the window: it finishes after
    the handler, so its updates are the last ones. The updates that follow an \<open>await\<close>
    are rendered together.
  \<^item> An input event arrives when nothing else is in flight.
  \<^item> Strings are lists of 8-bit characters; \<open>toLowerCase\<close> maps the letters A-Z to a-z
    and leaves every other character as it is.
\<close>

subsection \<open>Interfaces\<close>

text \<open>\<open>interface Pokemon { name; url }\<close>: one entry of the index.\<close>

record pokemon =
  p_name :: string
  p_url :: string

text \<open>The element type of \<open>types\<close>: \<open>{ slot, type: { name, url } }\<close>.\<close>

record type_info =
  slot :: int
  type_name :: string
  type_url :: string

text \<open>\<open>sprites: { front_default }\<close>.\<close>

record sprites =
  front_default :: string

text \<open>The JSON of a detail endpoint: \<open>detailData\<close> in \<open>fetchPokemonDetail\<close>.\<close>

record detail_data =
  dd_name :: string
  dd_id :: int
  dd_sprites :: sprites
  dd_types :: "type_info list"

text \<open>\<open>interface PokemonDetail\<close>: a hydrated record, \<open>detailData\<close> plus the weaknesses.\<close>

record pokemon_detail =
  name :: string
  id_no :: int
  sprites :: sprites
  types :: "type_info list"
  weaknesses :: "string list"

text \<open>
  The JSON of a type endpoint, reduced to what the code reads: the \<open>name\<close> of every
  element of \<open>damage_relations.double_damage_from\<close>, in order.
\<close>

record type_data =
  double_damage_from :: "string list"

subsection \<open>The remote API\<close>

datatype 'a response =
    NetworkError
  | Response bool nat "'a option"

text \<open>\<open>Response ok status body\<close>; \<open>body = None\<close> when \<open>json()\<close> throws.\<close>

record api =
  fetch_list :: "nat \<Rightarrow> pokemon list response"
  fetch_detail :: "string \<Rightarrow> detail_data response"
  fetch_type :: "string \<Rightarrow> type_data response"

datatype request =
    ListRequest nat
  | DetailRequest string
  | TypeRequest string

subsection \<open>Component state\<close>

text \<open>
  The two messages passed to \<open>setError\<close>: the one of \<open>fetchAllUrls\<close> (line 125) and
  the one of \<open>fetchInitialDisplayData\<close> (line 101).
\<close>

datatype error_message = IndexLoadError | InitialLoadError

record app_state =
  allPokemonUrls :: "pokemon list"
  pokemonDetails :: "pokemon_detail list"
  searchTerm :: string
  loading :: bool
  error :: "error_message option"

definition POKEMON_TOTAL_LIMIT :: nat where
  "POKEMON_TOTAL_LIMIT = 10000"

definition POKEMON_DISPLAY_LIMIT :: nat where
  "POKEMON_DISPLAY_LIMIT = 300"

text \<open>The arguments of the five \<open>useState\<close> calls.\<close>

definition initial_state :: app_state where
  "initial_state =
     \<lparr>allPokemonUrls = [], pokemonDetails = [], searchTerm = [], loading = True,
      error = None\<rparr>"

section \<open>String operations\<close>

definition lower_char :: "char \<Rightarrow> char" where
  "lower_char c =
     (let n = (of_char c :: nat) in if 65 \<le> n \<and> n \<le> 90 then char_of (n + 32) else c)"

definition toLowerCase :: "string \<Rightarrow> string" where
  "toLowerCase s = map lower_char s"

text \<open>\<open>s.includes(sub)\<close>: \<open>sub\<close> occurs in \<open>s\<close> at some position.\<close>

fun str_includes :: "string \<Rightarrow> string \<Rightarrow> bool" where
  "str_includes [] sub = (sub = [])"
| "str_includes (c # cs) sub = (prefix sub (c # cs) \<or> str_includes cs sub)"

section \<open>Hydration: \<open>fetchPokemonDetail\<close>\<close>

text \<open>Lines 59-61: push the name unless the array already has it.\<close>

definition push_unique :: "string list \<Rightarrow> string \<Rightarrow> string list" where
  "push_unique ws n = (if n \<in> set ws then ws else ws @ [n])"

text \<open>
  Lines 49-63, the loop over \<open>detailData.types\<close> with the accumulator \<open>weaknesses\<close>.
  \<open>None\<close> is an exception that leaves the loop for the \<open>catch\<close> of line 72: a rejected
  \<open>fetch\<close> or a \<open>json()\<close> that throws. A response that is not \<open>ok\<close> is the \<open>continue\<close>
  of line 54.
\<close>

fun type_loop :: "api \<Rightarrow> type_info list \<Rightarrow> string list \<Rightarrow> string list option \<times> request list" where
  "type_loop a [] ws = (Some ws, [])"
| "type_loop a (t # ts) ws =
     (case fetch_type a (type_url t) of
        NetworkError \<Rightarrow> (None, [TypeRequest (type_url t)])
      | Response ok st body \<Rightarrow>
          if \<not> ok then
            (let (r, reqs) = type_loop a ts ws in (r, TypeRequest (type_url t) # reqs))
          else
            (case body of
               None \<Rightarrow> (None, [TypeRequest (type_url t)])
             | Some typeData \<Rightarrow>
                 (let (r, reqs) = type_loop a ts (foldl push_unique ws (double_damage_from typeData))
                  in (r, TypeRequest (type_url t) # reqs))))"

definition fetchPokemonDetail :: "api \<Rightarrow> string \<Rightarrow> pokemon_detail option \<times> request list" where
  "fetchPokemonDetail a url =
     (case fetch_detail a url of
        NetworkError \<Rightarrow> (None, [DetailRequest url])
      | Response ok st body \<Rightarrow>
          if \<not> ok then (None, [DetailRequest url])
          else
            (case body of
               None \<Rightarrow> (None, [DetailRequest url])
             | Some detailData \<Rightarrow>
                 (case type_loop a (dd_types detailData) [] of
                    (None, reqs) \<Rightarrow> (None, DetailRequest url # reqs)
                  | (Some ws, reqs) \<Rightarrow>
                      (Some \<lparr>name = dd_name detailData, id_no = dd_id detailData,
                             sprites = dd_sprites detailData, types = dd_types detailData,
                             weaknesses = ws\<rparr>,
                       DetailRequest url # reqs))))"

section \<open>Batch hydration: \<open>fetchInitialDisplayData\<close>\<close>

text \<open>Line 92: \<open>allPokemonUrls.slice(0, POKEMON_DISPLAY_LIMIT)\<close>.\<close>

definition initialBatchUrls :: "pokemon list \<Rightarrow> pokemon list" where
  "initialBatchUrls urls = take POKEMON_DISPLAY_LIMIT urls"

text \<open>
  Lines 95-96: one hydration per entry of the batch, then the \<open>filter\<close> that drops
  the \<open>null\<close> results. The first component is \<open>loadedDetails\<close>.
\<close>

definition hydrateBatch :: "api \<Rightarrow> pokemon list \<Rightarrow> pokemon_detail list \<times> request list" where
  "hydrateBatch a batch =
     (let detailPromises = map (\<lambda>urlInfo. fetchPokemonDetail a (p_url urlInfo)) batch
      in (List.map_filter fst detailPromises, concat (map snd detailPromises)))"

text \<open>
  Lines 79-106. \<open>fetchPokemonDetail\<close> catches everything it can throw, so no promise of
  the batch rejects and the \<open>catch\<close> of line 99 is never entered; the \<open>finally\<close> of
  line 102 is the last update.
\<close>

definition fetchInitialDisplayData :: "api \<Rightarrow> app_state \<Rightarrow> app_state \<times> request list" where
  "fetchInitialDisplayData a st =
     (let st1 = st\<lparr>loading := True, error := None\<rparr>
      in if allPokemonUrls st = [] then (st1\<lparr>loading := False\<rparr>, [])
         else
           (let (loadedDetails, reqs) = hydrateBatch a (initialBatchUrls (allPokemonUrls st))
            in (st1\<lparr>pokemonDetails := loadedDetails, loading := False\<rparr>, reqs)))"

section \<open>Index load: \<open>fetchAllUrls\<close> and the two effects\<close>

text \<open>
  Lines 110-128. Everything thrown inside the \<open>try\<close> (a rejected \<open>fetch\<close>, the
  \<open>Error\<close> of line 116, a \<open>json()\<close> that throws) ends in the \<open>catch\<close> of line 123.
\<close>

definition fetchAllUrls :: "api \<Rightarrow> app_state \<Rightarrow> app_state \<times> request list" where
  "fetchAllUrls a st =
     (let failed = st\<lparr>error := Some IndexLoadError, loading := False\<rparr>;
          reqs = [ListRequest POKEMON_TOTAL_LIMIT]
      in case fetch_list a POKEMON_TOTAL_LIMIT of
           NetworkError \<Rightarrow> (failed, reqs)
         | Response ok status body \<Rightarrow>
             if \<not> ok then (failed, reqs)
             else
               (case body of
                  None \<Rightarrow> (failed, reqs)
                | Some results \<Rightarrow> (st\<lparr>allPokemonUrls := results\<rparr>, reqs)))"

text \<open>Lines 109-133: the body of the first effect, with its guard (line 130).\<close>

definition loadUrlsEffect :: "api \<Rightarrow> app_state \<Rightarrow> app_state \<times> request list" where
  "loadUrlsEffect a st =
     (if allPokemonUrls st = [] \<and> error st = None then fetchAllUrls a st else (st, []))"

text \<open>
  The dependency array of the first effect (line 133). After the first render, React
  runs the effect again after a render in which one of the dependencies has changed.
\<close>

definition loadUrlsDeps :: "app_state \<Rightarrow> nat \<times> error_message option" where
  "loadUrlsDeps st = (length (allPokemonUrls st), error st)"

definition rerunLoadUrlsEffect :: "api \<Rightarrow> app_state \<Rightarrow> app_state \<Rightarrow> app_state \<times> request list" where
  "rerunLoadUrlsEffect a prev st =
     (if loadUrlsDeps prev \<noteq> loadUrlsDeps st then loadUrlsEffect a st else (st, []))"

text \<open>Lines 137-143: the body of the second effect.\<close>

definition initialDisplayEffect :: "api \<Rightarrow> app_state \<Rightarrow> app_state \<times> request list" where
  "initialDisplayEffect a st =
     (if allPokemonUrls st \<noteq> [] \<and> pokemonDetails st = [] \<and> loading st
      then fetchInitialDisplayData a st
      else if allPokemonUrls st \<noteq> [] \<and> pokemonDetails st \<noteq> [] \<and> loading st
      then (st\<lparr>loading := False\<rparr>, [])
      else (st, []))"

section \<open>Search: \<open>handleSearchChange\<close> and \<open>filteredPokemon\<close>\<close>

text \<open>Line 160: the hydrated records whose name contains the value.\<close>

definition filteredInDisplay :: "app_state \<Rightarrow> string \<Rightarrow> pokemon_detail list" where
  "filteredInDisplay st value = filter (\<lambda>p. str_includes (name p) value) (pokemonDetails st)"

text \<open>Line 170: the first index entry whose name contains the value, if there is one.\<close>

definition foundPokemonUrl :: "app_state \<Rightarrow> string \<Rightarrow> pokemon option" where
  "foundPokemonUrl st value = find (\<lambda>p. str_includes (p_name p) value) (allPokemonUrls st)"

text \<open>
  The updates of \<open>fetchInitialDisplayData\<close> before the \<open>await\<close> of line 96 (lines
  81-82) and after it (lines 97 and 103), when the index is not empty.
\<close>

definition startInitialDisplay :: "app_state \<Rightarrow> app_state" where
  "startInitialDisplay st = st\<lparr>loading := True, error := None\<rparr>"

definition finishInitialDisplay :: "pokemon_detail list \<Rightarrow> app_state \<Rightarrow> app_state" where
  "finishInitialDisplay loadedDetails st = st\<lparr>pokemonDetails := loadedDetails, loading := False\<rparr>"

text \<open>
  The dependency array of the second effect (line 143). \<open>fetchInitialDisplayData\<close> is
  created anew when \<open>allPokemonUrls\<close> is set (line 106).
\<close>

definition initialDisplayDeps :: "app_state \<Rightarrow> nat \<times> nat \<times> bool \<times> pokemon list" where
  "initialDisplayDeps st =
     (length (allPokemonUrls st), length (pokemonDetails st), loading st, allPokemonUrls st)"

text \<open>
  The render at an \<open>await\<close> of the handler: \<open>prev\<close> is the state of the render before
  the event, \<open>st\<close> the state rendered at the \<open>await\<close>. The second effect (lines 137-143)
  runs if a dependency has changed. When it calls \<open>fetchInitialDisplayData\<close> (line
  139), the index is not empty, so the updates of lines 81-82 are made and the batch of
  lines 95-96 is in flight: the result carries the batch as pending.
\<close>

definition effectAtAwait ::
  "api \<Rightarrow> app_state \<Rightarrow> app_state \<Rightarrow> app_state \<times> (pokemon_detail list \<times> request list) option" where
  "effectAtAwait a prev st =
     (if initialDisplayDeps prev = initialDisplayDeps st then (st, None)
      else if allPokemonUrls st \<noteq> [] \<and> pokemonDetails st = [] \<and> loading st
      then (startInitialDisplay st, Some (hydrateBatch a (initialBatchUrls (allPokemonUrls st))))
      else if allPokemonUrls st \<noteq> [] \<and> pokemonDetails st \<noteq> [] \<and> loading st
      then (st\<lparr>loading := False\<rparr>, None)
      else (st, None))"

text \<open>
  A pending batch finishes (lines 97 and 103) after the handler has made its last
  update; \<open>r\<close> is the state and the requests of the handler.
\<close>

definition finishPending ::
  "(pokemon_detail list \<times> request list) option \<Rightarrow> app_state \<times> request list \<Rightarrow>
   app_state \<times> request list" where
  "finishPending pending r =
     (case pending of
        None \<Rightarrow> r
      | Some (loadedDetails, batchReqs) \<Rightarrow>
          (finishInitialDisplay loadedDetails (fst r), snd r @ batchReqs))"

text \<open>
  Lines 146-191. \<open>raw\<close> is \<open>event.target.value\<close>. \<open>pokemonDetails\<close> and
  \<open>allPokemonUrls\<close> are the values the callback closed over: those of the state \<open>st\<close>
  the handler starts in, which is also the state of the last render.

  With an empty value and an empty index \<open>fetchInitialDisplayData\<close> returns at line 88
  without an \<open>await\<close>. With an empty value and an index, the handler's call awaits
  its batch at line 96. With a value found in the index only, the handler awaits the
  hydration at line 174. In both cases \<open>setLoading(true)\<close> (lines 154, 169) is rendered
  at the \<open>await\<close>. All other paths have no \<open>await\<close>.
\<close>

definition handleSearchChange :: "api \<Rightarrow> app_state \<Rightarrow> string \<Rightarrow> app_state \<times> request list" where
  "handleSearchChange a st raw =
     (let value = toLowerCase raw;
          st1 = st\<lparr>searchTerm := value\<rparr>
      in if value = [] then
           (let st2 = st1\<lparr>loading := True\<rparr>
            in if allPokemonUrls st = [] then fetchInitialDisplayData a st2
               else
                 (let (mid, pending) = effectAtAwait a st (startInitialDisplay st2);
                      (loadedDetails, reqs) = hydrateBatch a (initialBatchUrls (allPokemonUrls st))
                  in finishPending pending (finishInitialDisplay loadedDetails mid, reqs)))
         else if filteredInDisplay st value \<noteq> [] then (st1, [])
         else
           (let st2 = st1\<lparr>loading := True\<rparr>
            in case foundPokemonUrl st value of
                 Some found \<Rightarrow>
                   (let (mid, pending) = effectAtAwait a st st2
                    in case fetchPokemonDetail a (p_url found) of
                         (Some detail, reqs) \<Rightarrow>
                           finishPending pending
                             (mid\<lparr>pokemonDetails := [detail], loading := False\<rparr>, reqs)
                       | (None, reqs) \<Rightarrow>
                           finishPending pending
                             (mid\<lparr>pokemonDetails := [], loading := False\<rparr>, reqs))
               | None \<Rightarrow> (st2\<lparr>pokemonDetails := [], loading := False\<rparr>, [])))"

text \<open>Lines 195-205.\<close>

definition filteredPokemon :: "app_state \<Rightarrow> pokemon_detail list" where
  "filteredPokemon st =
     (if searchTerm st = [] then pokemonDetails st
      else filter (\<lambda>pokemon. str_includes (toLowerCase (name pokemon)) (searchTerm st))
             (pokemonDetails st))"

subsection \<open>What the component renders\<close>

text \<open>Lines 236-249: the cards on screen.\<close>

definition visibleCards :: "app_state \<Rightarrow> pokemon_detail list" where
  "visibleCards st = (if loading st then [] else filteredPokemon st)"

text \<open>Lines 236-239 and 257-261: the two "no results" paragraphs have the same condition.\<close>

definition showsNoResults :: "app_state \<Rightarrow> bool" where
  "showsNoResults st = (\<not> loading st \<and> filteredPokemon st = [] \<and> searchTerm st \<noteq> [])"

text \<open>Lines 224-228: the error banner.\<close>

definition showsError :: "app_state \<Rightarrow> bool" where
  "showsError st = (error st \<noteq> None)"

section \<open>Predicates used in the statements\<close>

text \<open>An index fetch that throws or returns a response that is not \<open>ok\<close>.\<close>

definition indexFetchFails :: "api \<Rightarrow> bool" where
  "indexFetchFails a =
     (case fetch_list a POKEMON_TOTAL_LIMIT of
        NetworkError \<Rightarrow> True
      | Response ok status body \<Rightarrow> \<not> ok)"

text \<open>A detail fetch that throws or returns a response that is not \<open>ok\<close>.\<close>

definition detailFetchFails :: "api \<Rightarrow> string \<Rightarrow> bool" where
  "detailFetchFails a url =
     (case fetch_detail a url of NetworkError \<Rightarrow> True | Response ok status body \<Rightarrow> \<not> ok)"

text \<open>A type fetch that returns a response that is \<open>ok\<close>.\<close>

definition typeFetchOk :: "api \<Rightarrow> string \<Rightarrow> bool" where
  "typeFetchOk a url =
     (case fetch_type a url of NetworkError \<Rightarrow> False | Response ok status body \<Rightarrow> ok)"

text \<open>
  A type fetch that raises an exception inside the loop: \<open>fetch\<close> rejects, or the
  response is \<open>ok\<close> and its \<open>json()\<close> throws.
\<close>

definition typeFetchThrows :: "api \<Rightarrow> string \<Rightarrow> bool" where
  "typeFetchThrows a url =
     (case fetch_type a url of
        NetworkError \<Rightarrow> True
      | Response ok status body \<Rightarrow> ok \<and> body = None)"

text \<open>The names a type endpoint lists, when it answers with a body.\<close>

definition doubleDamageFrom :: "api \<Rightarrow> string \<Rightarrow> string list" where
  "doubleDamageFrom a url =
     (case fetch_type a url of
        NetworkError \<Rightarrow> []
      | Response ok status body \<Rightarrow>
          (case body of None \<Rightarrow> [] | Some typeData \<Rightarrow> double_damage_from typeData))"

text \<open>
  The detail endpoint names every creature in lower case, as the API of line 114 does.
\<close>

definition lowerCaseNames :: "api \<Rightarrow> bool" where
  "lowerCaseNames a =
     (\<forall>url. case fetch_detail a url of
              NetworkError \<Rightarrow> True
            | Response ok status body \<Rightarrow>
                (case body of
                   None \<Rightarrow> True
                 | Some detailData \<Rightarrow> toLowerCase (dd_name detailData) = dd_name detailData))"

definition isDetailRequest :: "request \<Rightarrow> bool" where
  "isDetailRequest r = (case r of DetailRequest url \<Rightarrow> True | _ \<Rightarrow> False)"

text \<open>
  While the index is empty nothing is hydrated. Every state of a session has this
  property (\<open>reachable_index_inv\<close> below).
\<close>

definition index_inv :: "app_state \<Rightarrow> bool" where
  "index_inv st = (allPokemonUrls st = [] \<longrightarrow> pokemonDetails st = [])"

text \<open>
  The states of a session: the initial state, and every state that an effect or the
  input handler leaves behind. The effects may run in any state here, which is more
  than React allows.
\<close>

inductive reachable :: "api \<Rightarrow> app_state \<Rightarrow> bool" for a :: api where
  reach_init: "reachable a initial_state"
| reach_loadUrls: "reachable a st \<Longrightarrow> reachable a (fst (loadUrlsEffect a st))"
| reach_initialDisplay: "reachable a st \<Longrightarrow> reachable a (fst (initialDisplayEffect a st))"
| reach_search: "reachable a st \<Longrightarrow> reachable a (fst (handleSearchChange a st raw))"

section \<open>A small API for concrete runs\<close>

text \<open>
  Three index entries. Paras has the types bug and grass, whose
  \<open>double_damage_from\<close> lists share flying and fire; Pikachu has the type electric;
  the third entry has no detail page (status 404).
\<close>

definition paras_data :: detail_data where
  "paras_data =
     \<lparr>dd_name = ''paras'', dd_id = 46, dd_sprites = \<lparr>front_default = ''sprites/46.png''\<rparr>,
      dd_types = [\<lparr>slot = 1, type_name = ''bug'', type_url = ''type/7''\<rparr>,
                  \<lparr>slot = 2, type_name = ''grass'', type_url = ''type/12''\<rparr>]\<rparr>"

definition pikachu_data :: detail_data where
  "pikachu_data =
     \<lparr>dd_name = ''pikachu'', dd_id = 25, dd_sprites = \<lparr>front_default = ''sprites/25.png''\<rparr>,
      dd_types = [\<lparr>slot = 1, type_name = ''electric'', type_url = ''type/13''\<rparr>]\<rparr>"

definition sample_index :: "pokemon list" where
  "sample_index =
     [\<lparr>p_name = ''paras'', p_url = ''pokemon/46''\<rparr>,
      \<lparr>p_name = ''pikachu'', p_url = ''pokemon/25''\<rparr>,
      \<lparr>p_name = ''missingno'', p_url = ''pokemon/0''\<rparr>]"

definition sample_fetch_detail :: "string \<Rightarrow> detail_data response" where
  "sample_fetch_detail url =
     (if url = ''pokemon/46'' then Response True 200 (Some paras_data)
      else if url = ''pokemon/25'' then Response True 200 (Some pikachu_data)
      else Response False 404 None)"

definition sample_fetch_type :: "string \<Rightarrow> type_data response" where
  "sample_fetch_type url =
     (if url = ''type/7'' then
        Response True 200 (Some \<lparr>double_damage_from = [''flying'', ''rock'', ''fire'']\<rparr>)
      else if url = ''type/12'' then
        Response True 200
          (Some \<lparr>double_damage_from = [''flying'', ''poison'', ''bug'', ''fire'', ''ice'']\<rparr>)
      else if url = ''type/13'' then
        Response True 200 (Some \<lparr>double_damage_from = [''ground'']\<rparr>)
      else Response False 404 None)"

definition sample_api :: api where
  "sample_api =
     \<lparr>fetch_list = (\<lambda>limit. Response True 200 (Some sample_index)),
      fetch_detail = sample_fetch_detail,
      fetch_type = sample_fetch_type\<rparr>"

text \<open>The records that \<open>sample_api\<close> hydrates.\<close>

definition paras :: pokemon_detail where
  "paras =
     \<lparr>name = ''paras'', id_no = 46, sprites = \<lparr>front_default = ''sprites/46.png''\<rparr>,
      types = dd_types paras_data,
      weaknesses = [''flying'', ''rock'', ''fire'', ''poison'', ''bug'', ''ice'']\<rparr>"

definition pikachu :: pokemon_detail where
  "pikachu =
     \<lparr>name = ''pikachu'', id_no = 25, sprites = \<lparr>front_default = ''sprites/25.png''\<rparr>,
      types = dd_types pikachu_data, weaknesses = [''ground'']\<rparr>"

text \<open>The state after the index load and the initial hydration against \<open>sample_api\<close>.\<close>

definition sample_loaded :: app_state where
  "sample_loaded =
     \<lparr>allPokemonUrls = sample_index, pokemonDetails = [paras, pikachu], searchTerm = [],
      loading = False, error = None\<rparr>"

text \<open>\<open>sample_api\<close> with the grass endpoint unreachable: \<open>fetch\<close> rejects.\<close>

definition type_outage_api :: api where
  "type_outage_api =
     sample_api\<lparr>fetch_type :=
       (\<lambda>url. if url = ''type/12'' then NetworkError else sample_fetch_type url)\<rparr>"

text \<open>\<open>sample_api\<close> with a detail page for Pikachu that \<open>fetch\<close> cannot reach.\<close>

definition detail_outage_api :: api where
  "detail_outage_api =
     sample_api\<lparr>fetch_detail :=
       (\<lambda>url. if url = ''pokemon/25'' then NetworkError else sample_fetch_detail url)\<rparr>"

text \<open>The state after the index load and the initial hydration against \<open>detail_outage_api\<close>.\<close>

definition outage_loaded :: app_state where
  "outage_loaded = sample_loaded\<lparr>pokemonDetails := [paras]\<rparr>"

text \<open>\<open>sample_api\<close> with the listing endpoint answering 503.\<close>

definition index_down_api :: api where
  "index_down_api = sample_api\<lparr>fetch_list := (\<lambda>limit. Response False 503 None)\<rparr>"

text \<open>
  \<open>sample_loaded\<close> after a search that found nothing to show: the hydrated set is
  empty, the index is still there.
\<close>

definition sample_emptied :: app_state where
  "sample_emptied = sample_loaded\<lparr>pokemonDetails := [], searchTerm := ''zzz''\<rparr>"

text \<open>An index longer than the display window: 300 entries for Paras, then Pikachu.\<close>

definition long_index :: "pokemon list" where
  "long_index =
     replicate 300 \<lparr>p_name = ''paras'', p_url = ''pokemon/46''\<rparr>
     @ [\<lparr>p_name = ''pikachu'', p_url = ''pokemon/25''\<rparr>]"

text \<open>\<open>sample_api\<close> with the grass endpoint answering 500.\<close>

definition type_error_api :: api where
  "type_error_api =
     sample_api\<lparr>fetch_type :=
       (\<lambda>url. if url = ''type/12'' then Response False 500 None else sample_fetch_type url)\<rparr>"

text \<open>
  A session against \<open>index_down_api\<close>: the first effect runs on mount, then the user
  types one letter, then deletes it.
\<close>

definition index_down_mounted :: app_state where
  "index_down_mounted = fst (loadUrlsEffect index_down_api initial_state)"

definition index_down_typed :: app_state where
  "index_down_typed = fst (handleSearchChange index_down_api index_down_mounted ''a'')"

definition index_down_cleared :: app_state where
  "index_down_cleared = fst (handleSearchChange index_down_api index_down_typed [])"

text \<open>
  An index with two entries for \<open>pika\<close>: the detail page of the first answers 503, the
  second is hydrated.
\<close>

definition libre_data :: detail_data where
  "libre_data =
     \<lparr>dd_name = ''pikachu-libre'', dd_id = 10084,
      dd_sprites = \<lparr>front_default = ''sprites/10084.png''\<rparr>,
      dd_types = [\<lparr>slot = 1, type_name = ''electric'', type_url = ''type/13''\<rparr>]\<rparr>"

definition sibling_index :: "pokemon list" where
  "sibling_index =
     [\<lparr>p_name = ''pikachu'', p_url = ''pokemon/25''\<rparr>,
      \<lparr>p_name = ''pikachu-libre'', p_url = ''pokemon/10084''\<rparr>]"

definition sibling_api :: api where
  "sibling_api =
     \<lparr>fetch_list = (\<lambda>limit. Response True 200 (Some sibling_index)),
      fetch_detail =
        (\<lambda>url. if url = ''pokemon/10084'' then Response True 200 (Some libre_data)
               else Response False 503 None),
      fetch_type = sample_fetch_type\<rparr>"

definition pikachu_libre :: pokemon_detail where
  "pikachu_libre =
     \<lparr>name = ''pikachu-libre'', id_no = 10084,
      sprites = \<lparr>front_default = ''sprites/10084.png''\<rparr>,
      types = dd_types libre_data, weaknesses = [''ground'']\<rparr>"

text \<open>
  The state after the index load and the initial hydration against \<open>sibling_api\<close>, and
  the state after the query \<open>zzz\<close> in it.
\<close>

definition sibling_loaded :: app_state where
  "sibling_loaded =
     \<lparr>allPokemonUrls = sibling_index, pokemonDetails = [pikachu_libre], searchTerm = [],
      loading = False, error = None\<rparr>"

definition sibling_emptied :: app_state where
  "sibling_emptied = sibling_loaded\<lparr>pokemonDetails := [], searchTerm := ''zzz''\<rparr>"

text \<open>
  A state whose one index entry is named \<open>pikachu\<close> and points to the detail page of
  Paras.
\<close>

definition mislabelled_state :: app_state where
  "mislabelled_state =
     sample_loaded\<lparr>allPokemonUrls := [\<lparr>p_name = ''pikachu'', p_url = ''pokemon/46''\<rparr>],
                   pokemonDetails := [paras]\<rparr>"

section \<open>Weaknesses have no duplicates\<close>

lemma distinct_push_unique: "distinct ws \<Longrightarrow> distinct (push_unique ws n)"
  by (simp add: push_unique_def)

lemma distinct_foldl_push_unique: "distinct ws \<Longrightarrow> distinct (foldl push_unique ws ns)"
  by (induction ns arbitrary: ws) (simp_all add: distinct_push_unique)

lemma type_loop_distinct:
  "distinct ws \<Longrightarrow> type_loop a ts ws = (Some ws', reqs) \<Longrightarrow> distinct ws'"
proof (induction ts arbitrary: ws reqs)
  case Nil
  then show ?case by simp
next
  case (Cons t ts)
  show ?case
  proof (cases "fetch_type a (type_url t)")
    case NetworkError
    with Cons.prems show ?thesis by simp
  next
    case (Response ok st body)
    show ?thesis
    proof (cases ok)
      case False
      with Response Cons.prems obtain reqs' where "type_loop a ts ws = (Some ws', reqs')"
        by (auto split: prod.splits)
      with Cons.IH Cons.prems(1) show ?thesis by blast
    next
      case True
      show ?thesis
      proof (cases body)
        case None
        with True Response Cons.prems show ?thesis by simp
      next
        case (Some typeData)
        with True Response Cons.prems obtain reqs' where
          "type_loop a ts (foldl push_unique ws (double_damage_from typeData)) = (Some ws', reqs')"
          by (auto split: prod.splits)
        moreover have "distinct (foldl push_unique ws (double_damage_from typeData))"
          using Cons.prems(1) by (rule distinct_foldl_push_unique)
        ultimately show ?thesis using Cons.IH by blast
      qed
    qed
  qed
qed

lemma fetchPokemonDetail_SomeE:
  assumes "fst (fetchPokemonDetail a url) = Some d"
  obtains st detailData reqs where
    "fetch_detail a url = Response True st (Some detailData)"
    "type_loop a (dd_types detailData) [] = (Some (weaknesses d), reqs)"
    "d = \<lparr>name = dd_name detailData, id_no = dd_id detailData,
          sprites = dd_sprites detailData, types = dd_types detailData,
          weaknesses = weaknesses d\<rparr>"
proof (cases "fetch_detail a url")
  case NetworkError
  with assms show ?thesis by (simp add: fetchPokemonDetail_def)
next
  case (Response ok st body)
  show ?thesis
  proof (cases body)
    case None
    with assms Response show ?thesis
      by (simp add: fetchPokemonDetail_def split: if_splits)
  next
    case (Some detailData)
    obtain r reqs where loop: "type_loop a (dd_types detailData) [] = (r, reqs)"
      by (cases "type_loop a (dd_types detailData) []")
    from assms Response Some have ok
      by (cases ok) (simp_all add: fetchPokemonDetail_def)
    show ?thesis
    proof (cases r)
      case None
      with assms Response Some loop \<open>ok\<close> show ?thesis
        by (simp add: fetchPokemonDetail_def)
    next
      case (Some ws)
      with assms Response \<open>body = Some detailData\<close> loop \<open>ok\<close> have
        "d = \<lparr>name = dd_name detailData, id_no = dd_id detailData,
              sprites = dd_sprites detailData, types = dd_types detailData,
              weaknesses = ws\<rparr>"
        by (simp add: fetchPokemonDetail_def)
      with that [of st detailData reqs] Response \<open>body = Some detailData\<close> loop \<open>ok\<close> Some
      show ?thesis by simp
    qed
  qed
qed

text \<open>
  C1. Every record that \<open>fetchPokemonDetail\<close> produces has a duplicate-free
  \<open>weaknesses\<close> list: a name listed by several of the creature's types appears once.
\<close>

theorem weaknesses_distinct:
  "fst (fetchPokemonDetail a url) = Some d \<Longrightarrow> distinct (weaknesses d)"
proof -
  assume "fst (fetchPokemonDetail a url) = Some d"
  then show ?thesis
  proof (rule fetchPokemonDetail_SomeE)
    fix st detailData reqs
    assume "type_loop a (dd_types detailData) [] = (Some (weaknesses d), reqs)"
    from type_loop_distinct [OF _ this] show ?thesis by simp
  qed
qed

theorem weaknesses_distinct_witness:
  "fst (fetchPokemonDetail sample_api ''pokemon/46'') = Some paras
   \<and> weaknesses paras = [''flying'', ''rock'', ''fire'', ''poison'', ''bug'', ''ice'']
   \<and> distinct (weaknesses paras)"
proof -
  have h: "fst (fetchPokemonDetail sample_api ''pokemon/46'') = Some paras"
    by code_simp
  have w: "weaknesses paras = [''flying'', ''rock'', ''fire'', ''poison'', ''bug'', ''ice'']"
    by code_simp
  from h w weaknesses_distinct [OF h] show ?thesis by simp
qed

section \<open>Facts about the string operations\<close>

lemma lower_char_idem: "lower_char (lower_char c) = lower_char c"
  by (simp add: lower_char_def Let_def)

lemma toLowerCase_idem: "toLowerCase (toLowerCase s) = toLowerCase s"
  by (simp add: toLowerCase_def lower_char_idem)

lemma toLowerCase_Nil: "toLowerCase s = [] \<longleftrightarrow> s = []"
  by (simp add: toLowerCase_def)

lemma str_includes_sublist: "str_includes s sub \<longleftrightarrow> sublist sub s"
  by (induction s) (simp_all add: sublist_Cons_right)

text \<open>A match on the raw name is a match on the lower-cased name.\<close>

lemma str_includes_toLowerCase:
  "str_includes s sub \<Longrightarrow> str_includes (toLowerCase s) (toLowerCase sub)"
  by (simp add: str_includes_sublist toLowerCase_def map_mono_sublist)

section \<open>Facts about hydration\<close>

lemma fetchPokemonDetail_fails:
  "detailFetchFails a url \<Longrightarrow> fetchPokemonDetail a url = (None, [DetailRequest url])"
  by (simp add: detailFetchFails_def fetchPokemonDetail_def split: response.splits)

lemma isDetailRequest_simps:
  "isDetailRequest (DetailRequest url) = True"
  "isDetailRequest (TypeRequest url) = False"
  "isDetailRequest (ListRequest n) = False"
  by (simp_all add: isDetailRequest_def)

lemma type_loop_requests: "filter isDetailRequest (snd (type_loop a ts ws)) = []"
proof (induction ts arbitrary: ws)
  case Nil
  show ?case by simp
next
  case (Cons t ts)
  have IH: "filter isDetailRequest reqs = []" if "type_loop a ts ws' = (r, reqs)" for ws' r reqs
    using Cons.IH [of ws'] that by simp
  show ?case
    by (auto simp: isDetailRequest_simps IH split: response.splits option.splits prod.splits)
qed

lemma fetchPokemonDetail_requests:
  "filter isDetailRequest (snd (fetchPokemonDetail a url)) = [DetailRequest url]"
proof -
  have "filter isDetailRequest reqs = []" if "type_loop a ts [] = (r, reqs)" for ts r reqs
    using type_loop_requests [of a ts "[]"] that by simp
  then show ?thesis
    by (simp add: fetchPokemonDetail_def isDetailRequest_simps
             split: response.splits option.splits prod.splits)
qed

lemma fst_hydrateBatch:
  "fst (hydrateBatch a batch) = List.map_filter (\<lambda>p. fst (fetchPokemonDetail a (p_url p))) batch"
  by (induction batch) (simp_all add: hydrateBatch_def Let_def split: option.splits)

lemma snd_hydrateBatch:
  "snd (hydrateBatch a batch) = concat (map (\<lambda>p. snd (fetchPokemonDetail a (p_url p))) batch)"
  by (simp add: hydrateBatch_def Let_def comp_def)

lemma hydrateBatch_detail_requests:
  "filter isDetailRequest (snd (hydrateBatch a batch)) = map (\<lambda>p. DetailRequest (p_url p)) batch"
  by (induction batch) (simp_all add: snd_hydrateBatch fetchPokemonDetail_requests)

lemma length_hydrateBatch: "length (fst (hydrateBatch a batch)) \<le> length batch"
  by (simp add: fst_hydrateBatch map_filter_def le_trans [OF length_filter_le])

lemma fetchInitialDisplayData_loaded:
  "allPokemonUrls st \<noteq> [] \<Longrightarrow>
   fetchInitialDisplayData a st =
     (st\<lparr>loading := False, error := None,
         pokemonDetails := fst (hydrateBatch a (initialBatchUrls (allPokemonUrls st)))\<rparr>,
      snd (hydrateBatch a (initialBatchUrls (allPokemonUrls st))))"
  by (simp add: fetchInitialDisplayData_def Let_def split: prod.splits)

lemma fetchInitialDisplayData_empty:
  "allPokemonUrls st = [] \<Longrightarrow>
   fetchInitialDisplayData a st = (st\<lparr>loading := False, error := None\<rparr>, [])"
  by (simp add: fetchInitialDisplayData_def Let_def)

lemma map_filter_skip:
  "(\<And>x. x \<in> set xs \<Longrightarrow> \<not> P x \<Longrightarrow> f x = None) \<Longrightarrow>
   List.map_filter f (filter P xs) = List.map_filter f xs"
  by (induction xs) (auto split: option.splits)

section \<open>The concrete states are states of a session\<close>

lemma sample_loaded_run:
  "fst (initialDisplayEffect sample_api (fst (loadUrlsEffect sample_api initial_state))) =
     sample_loaded"
  by code_simp

lemma outage_loaded_run:
  "fst (initialDisplayEffect detail_outage_api
         (fst (loadUrlsEffect detail_outage_api initial_state))) = outage_loaded"
  by code_simp

lemma sample_emptied_run:
  "fst (handleSearchChange sample_api sample_loaded ''zzz'') = sample_emptied"
  by code_simp

section \<open>Batch hydration\<close>

text \<open>
  C2. In a batch hydration the output is what the entries whose detail fetch does not
  fail produce, in order: an entry whose detail fetch throws or returns a response that
  is not \<open>ok\<close> yields \<open>null\<close> after that one request, no record, and the other
  entries are hydrated all the same.
\<close>

theorem failed_detail_fetch_skipped:
  assumes "allPokemonUrls st \<noteq> []"
  shows "pokemonDetails (fst (fetchInitialDisplayData a st)) =
           List.map_filter (\<lambda>p. fst (fetchPokemonDetail a (p_url p)))
             (filter (\<lambda>p. \<not> detailFetchFails a (p_url p)) (initialBatchUrls (allPokemonUrls st)))
         \<and> (\<forall>p \<in> set (initialBatchUrls (allPokemonUrls st)).
               detailFetchFails a (p_url p) \<longrightarrow>
               fetchPokemonDetail a (p_url p) = (None, [DetailRequest (p_url p)]))"
proof -
  let ?batch = "initialBatchUrls (allPokemonUrls st)"
  let ?hydrate = "\<lambda>p. fst (fetchPokemonDetail a (p_url p))"
  have "pokemonDetails (fst (fetchInitialDisplayData a st)) = List.map_filter ?hydrate ?batch"
    using assms by (simp add: fetchInitialDisplayData_loaded fst_hydrateBatch)
  also have "\<dots> = List.map_filter ?hydrate (filter (\<lambda>p. \<not> detailFetchFails a (p_url p)) ?batch)"
    by (rule map_filter_skip [symmetric]) (simp add: fetchPokemonDetail_fails)
  finally show ?thesis
    by (simp add: fetchPokemonDetail_fails)
qed

theorem failed_detail_fetch_skipped_witness:
  "allPokemonUrls sample_loaded \<noteq> []
   \<and> initialBatchUrls (allPokemonUrls sample_loaded) = sample_index
   \<and> detailFetchFails sample_api ''pokemon/0''
   \<and> filter (\<lambda>p. \<not> detailFetchFails sample_api (p_url p)) sample_index = take 2 sample_index
   \<and> fetchPokemonDetail sample_api ''pokemon/0'' = (None, [DetailRequest ''pokemon/0''])
   \<and> pokemonDetails (fst (fetchInitialDisplayData sample_api sample_loaded)) = [paras, pikachu]"
proof -
  have h: "allPokemonUrls sample_loaded \<noteq> []" by code_simp
  have b: "initialBatchUrls (allPokemonUrls sample_loaded) = sample_index" by code_simp
  have f: "detailFetchFails sample_api ''pokemon/0''" by code_simp
  have k: "filter (\<lambda>p. \<not> detailFetchFails sample_api (p_url p)) sample_index = take 2 sample_index"
    by code_simp
  have m: "\<lparr>p_name = ''missingno'', p_url = ''pokemon/0''\<rparr> \<in> set sample_index"
    by (simp add: sample_index_def)
  have r: "List.map_filter (\<lambda>p. fst (fetchPokemonDetail sample_api (p_url p))) (take 2 sample_index)
           = [paras, pikachu]"
    by code_simp
  from failed_detail_fetch_skipped [OF h, of sample_api] h b f k m r show ?thesis
    by auto
qed

text \<open>
  C9. When the index is loaded, \<open>fetchInitialDisplayData\<close> hydrates the first
  \<open>POKEMON_DISPLAY_LIMIT\<close> index entries (all of them when there are fewer) and no
  other: it issues one detail request per entry of that prefix, in index order, and the
  hydrated set is the list of the records these entries produce, in index order, so it
  has at most \<open>POKEMON_DISPLAY_LIMIT\<close> records, each made from an entry of the prefix.
\<close>

theorem initial_hydration_is_prefix:
  assumes "allPokemonUrls st \<noteq> []"
  shows "pokemonDetails (fst (fetchInitialDisplayData a st)) =
           List.map_filter (\<lambda>p. fst (fetchPokemonDetail a (p_url p)))
             (take POKEMON_DISPLAY_LIMIT (allPokemonUrls st))
         \<and> filter isDetailRequest (snd (fetchInitialDisplayData a st)) =
             map (\<lambda>p. DetailRequest (p_url p)) (take POKEMON_DISPLAY_LIMIT (allPokemonUrls st))
         \<and> length (pokemonDetails (fst (fetchInitialDisplayData a st))) \<le> POKEMON_DISPLAY_LIMIT
         \<and> (\<forall>d \<in> set (pokemonDetails (fst (fetchInitialDisplayData a st))).
               \<exists>p \<in> set (take POKEMON_DISPLAY_LIMIT (allPokemonUrls st)).
                 fst (fetchPokemonDetail a (p_url p)) = Some d)"
proof -
  let ?batch = "take POKEMON_DISPLAY_LIMIT (allPokemonUrls st)"
  have details: "pokemonDetails (fst (fetchInitialDisplayData a st)) = fst (hydrateBatch a ?batch)"
    and reqs: "snd (fetchInitialDisplayData a st) = snd (hydrateBatch a ?batch)"
    using assms by (simp_all add: fetchInitialDisplayData_loaded initialBatchUrls_def)
  have "length (fst (hydrateBatch a ?batch)) \<le> length ?batch"
    by (rule length_hydrateBatch)
  then have bound: "length (fst (hydrateBatch a ?batch)) \<le> POKEMON_DISPLAY_LIMIT"
    by simp
  have origin: "\<exists>p \<in> set ?batch. fst (fetchPokemonDetail a (p_url p)) = Some d"
    if "d \<in> set (fst (hydrateBatch a ?batch))" for d
    using that by (auto simp: fst_hydrateBatch map_filter_def)
  from details reqs bound origin show ?thesis
    by (simp add: fst_hydrateBatch [symmetric] hydrateBatch_detail_requests)
qed

theorem initial_hydration_is_prefix_witness:
  "allPokemonUrls (sample_loaded\<lparr>allPokemonUrls := long_index\<rparr>) \<noteq> []
   \<and> length long_index = 301
   \<and> pokemonDetails
        (fst (fetchInitialDisplayData sample_api (sample_loaded\<lparr>allPokemonUrls := long_index\<rparr>)))
      = replicate 300 paras
   \<and> filter isDetailRequest
        (snd (fetchInitialDisplayData sample_api (sample_loaded\<lparr>allPokemonUrls := long_index\<rparr>)))
      = replicate 300 (DetailRequest ''pokemon/46'')"
proof -
  let ?st = "sample_loaded\<lparr>allPokemonUrls := long_index\<rparr>"
  let ?e = "\<lparr>p_name = ''paras'', p_url = ''pokemon/46''\<rparr>"
  have h: "allPokemonUrls ?st \<noteq> []"
    by (simp add: long_index_def)
  have l: "length long_index = 301"
    by (simp add: long_index_def)
  have t: "take POKEMON_DISPLAY_LIMIT (allPokemonUrls ?st) = replicate 300 ?e"
    by (simp add: POKEMON_DISPLAY_LIMIT_def long_index_def)
  have p: "fst (fetchPokemonDetail sample_api (p_url ?e)) = Some paras"
    by code_simp
  have r: "List.map_filter (\<lambda>p. fst (fetchPokemonDetail sample_api (p_url p))) (replicate n ?e)
           = replicate n paras" for n
    using p by (induction n) simp_all
  from initial_hydration_is_prefix [OF h, of sample_api] h l show ?thesis
    unfolding t by (simp add: r)
qed

section \<open>The paths of the input handler\<close>

lemma filteredInDisplay_Nil:
  "filteredInDisplay st value = [] \<longleftrightarrow>
   (\<forall>p \<in> set (pokemonDetails st). \<not> str_includes (name p) value)"
  by (simp add: filteredInDisplay_def filter_empty_conv)

lemma foundPokemonUrl_None:
  "foundPokemonUrl st value = None \<longleftrightarrow>
   (\<forall>p \<in> set (allPokemonUrls st). \<not> str_includes (p_name p) value)"
  by (auto simp: foundPokemonUrl_def find_None_iff)

lemma foundPokemonUrl_Some:
  "foundPokemonUrl st value = Some p \<Longrightarrow>
   p \<in> set (allPokemonUrls st) \<and> str_includes (p_name p) value"
  by (auto simp: foundPokemonUrl_def find_Some_iff)

text \<open>
  \<open>effectAtAwait\<close> followed by \<open>finishPending\<close> is the second effect itself, run as one
  transition, whenever a dependency has changed.
\<close>

lemma effectAtAwait_is_effect:
  assumes "initialDisplayDeps prev \<noteq> initialDisplayDeps st"
  shows "finishPending (snd (effectAtAwait a prev st)) (fst (effectAtAwait a prev st), []) =
           initialDisplayEffect a st"
  using assms
  by (auto simp: effectAtAwait_def finishPending_def initialDisplayEffect_def
        fetchInitialDisplayData_loaded startInitialDisplay_def finishInitialDisplay_def
        split: prod.splits)

text \<open>
  The effect at an \<open>await\<close> of the handler, as far as the handler's paths need it. With
  a hydrated set the effect at most clears \<open>loading\<close>; with none, an index and
  \<open>loading\<close> clear before the event, it starts a batch.
\<close>

lemma effectAtAwait_hydrated:
  assumes "pokemonDetails st \<noteq> []"
    and "pokemonDetails mid = pokemonDetails st" and "allPokemonUrls mid = allPokemonUrls st"
  shows "snd (effectAtAwait a st mid) = None"
    and "fst (effectAtAwait a st mid) = mid \<or> fst (effectAtAwait a st mid) = mid\<lparr>loading := False\<rparr>"
  using assms by (simp_all add: effectAtAwait_def)

lemma effectAtAwait_rehydrates:
  assumes "pokemonDetails st = []" and "allPokemonUrls st \<noteq> []" and "\<not> loading st"
    and "pokemonDetails mid = []" and "allPokemonUrls mid = allPokemonUrls st" and "loading mid"
  shows "effectAtAwait a st mid =
           (startInitialDisplay mid, Some (hydrateBatch a (initialBatchUrls (allPokemonUrls st))))"
  using assms by (simp add: effectAtAwait_def initialDisplayDeps_def)

lemma effectAtAwait_still_loading:
  assumes "loading st" and "loading mid"
    and "pokemonDetails mid = pokemonDetails st" and "allPokemonUrls mid = allPokemonUrls st"
  shows "effectAtAwait a st mid = (mid, None)"
  using assms by (simp add: effectAtAwait_def initialDisplayDeps_def)

text \<open>Lines 151-157 with an empty index: no \<open>await\<close>.\<close>

lemma handleSearchChange_empty_no_index:
  "allPokemonUrls st = [] \<Longrightarrow>
   handleSearchChange a st [] = (st\<lparr>searchTerm := [], loading := False, error := None\<rparr>, [])"
  by (simp add: handleSearchChange_def toLowerCase_def fetchInitialDisplayData_empty)

text \<open>
  Lines 151-157 with an index: the state is that of the handler's batch; the batch is
  hydrated a second time by the effect when nothing was hydrated and \<open>loading\<close> was
  clear before the event.
\<close>

lemma handleSearchChange_empty_index:
  assumes "allPokemonUrls st \<noteq> []"
  shows "fst (handleSearchChange a st []) =
           st\<lparr>searchTerm := [], loading := False, error := None,
              pokemonDetails := fst (hydrateBatch a (initialBatchUrls (allPokemonUrls st)))\<rparr>"
    and "snd (handleSearchChange a st []) =
           snd (hydrateBatch a (initialBatchUrls (allPokemonUrls st)))
           @ (if pokemonDetails st = [] \<and> \<not> loading st
              then snd (hydrateBatch a (initialBatchUrls (allPokemonUrls st))) else [])"
  using assms
  by (auto simp: handleSearchChange_def Let_def toLowerCase_def effectAtAwait_def
        initialDisplayDeps_def startInitialDisplay_def finishInitialDisplay_def
        finishPending_def split: prod.splits)

text \<open>Lines 163-165: a hit among the hydrated names.\<close>

lemma handleSearchChange_hit:
  assumes "raw \<noteq> []" and "filteredInDisplay st (toLowerCase raw) \<noteq> []"
  shows "handleSearchChange a st raw = (st\<lparr>searchTerm := toLowerCase raw\<rparr>, [])"
  using assms by (simp add: handleSearchChange_def Let_def toLowerCase_Nil)

text \<open>Lines 185-189: no hit among the hydrated names and none in the index; no \<open>await\<close>.\<close>

lemma handleSearchChange_not_found:
  assumes "raw \<noteq> []" and "filteredInDisplay st (toLowerCase raw) = []"
    and "foundPokemonUrl st (toLowerCase raw) = None"
  shows "handleSearchChange a st raw =
           (st\<lparr>searchTerm := toLowerCase raw, loading := False, pokemonDetails := []\<rparr>, [])"
  using assms by (simp add: handleSearchChange_def Let_def toLowerCase_Nil)

text \<open>
  Lines 172-184 when some record is hydrated, or \<open>loading\<close> was set before the event:
  the effect starts no batch, and the handler's updates are the last ones.
\<close>

lemma handleSearchChange_found_no_batch:
  assumes "raw \<noteq> []" and "filteredInDisplay st (toLowerCase raw) = []"
    and "foundPokemonUrl st (toLowerCase raw) = Some p"
    and "pokemonDetails st \<noteq> [] \<or> loading st"
  shows "handleSearchChange a st raw =
           (st\<lparr>searchTerm := toLowerCase raw, loading := False,
               pokemonDetails :=
                 (case fst (fetchPokemonDetail a (p_url p)) of
                    None \<Rightarrow> [] | Some detail \<Rightarrow> [detail])\<rparr>,
            snd (fetchPokemonDetail a (p_url p)))"
proof -
  let ?mid = "st\<lparr>searchTerm := toLowerCase raw, loading := True\<rparr>"
  have eff: "snd (effectAtAwait a st ?mid) = None
             \<and> (fst (effectAtAwait a st ?mid) = ?mid
                \<or> fst (effectAtAwait a st ?mid) = ?mid\<lparr>loading := False\<rparr>)"
  proof (cases "pokemonDetails st \<noteq> []")
    case True
    then show ?thesis
      using effectAtAwait_hydrated [of st ?mid a] by simp
  next
    case False
    with assms(4) have "loading st" by simp
    then show ?thesis
      using effectAtAwait_still_loading [of st ?mid a] by simp
  qed
  then show ?thesis
    using assms(1-3)
    by (cases "effectAtAwait a st ?mid"; cases "fetchPokemonDetail a (p_url p)")
      (auto simp: handleSearchChange_def Let_def toLowerCase_Nil finishPending_def
         split: option.splits)
qed

text \<open>
  Lines 172-184 when nothing is hydrated and \<open>loading\<close> is clear: the effect starts the
  batch of the window at the \<open>await\<close> of line 174, and the batch overwrites what the
  handler has set.
\<close>

lemma handleSearchChange_found_rehydrates:
  assumes "raw \<noteq> []" and "pokemonDetails st = []" and "\<not> loading st"
    and "foundPokemonUrl st (toLowerCase raw) = Some p"
  shows "handleSearchChange a st raw =
           (st\<lparr>searchTerm := toLowerCase raw, loading := False, error := None,
               pokemonDetails := fst (hydrateBatch a (initialBatchUrls (allPokemonUrls st)))\<rparr>,
            snd (fetchPokemonDetail a (p_url p))
            @ snd (hydrateBatch a (initialBatchUrls (allPokemonUrls st))))"
proof -
  let ?mid = "st\<lparr>searchTerm := toLowerCase raw, loading := True\<rparr>"
  from assms(4) have index: "allPokemonUrls st \<noteq> []"
    by (auto dest: foundPokemonUrl_Some)
  have eff: "effectAtAwait a st ?mid =
               (startInitialDisplay ?mid, Some (hydrateBatch a (initialBatchUrls (allPokemonUrls st))))"
    by (rule effectAtAwait_rehydrates) (simp_all add: assms(2,3) index)
  from assms(2) have miss: "filteredInDisplay st (toLowerCase raw) = []"
    by (simp add: filteredInDisplay_def)
  show ?thesis
    using assms(1,4) miss
    by (cases "fetchPokemonDetail a (p_url p)"; cases "hydrateBatch a (initialBatchUrls (allPokemonUrls st))")
      (auto simp: handleSearchChange_def Let_def toLowerCase_Nil eff finishPending_def
         startInitialDisplay_def finishInitialDisplay_def split: option.splits)
qed


section \<open>Session invariants\<close>

text \<open>What the handler leaves: the index as it was, and one of four hydrated sets.\<close>

lemma handleSearchChange_shape:
  "allPokemonUrls (fst (handleSearchChange a st raw)) = allPokemonUrls st
   \<and> ((pokemonDetails (fst (handleSearchChange a st raw)) = pokemonDetails st
        \<and> (loading (fst (handleSearchChange a st raw)) \<longrightarrow> loading st))
      \<or> (\<not> loading (fst (handleSearchChange a st raw))
         \<and> pokemonDetails (fst (handleSearchChange a st raw)) = [])
      \<or> (\<not> loading (fst (handleSearchChange a st raw)) \<and> allPokemonUrls st \<noteq> []
         \<and> pokemonDetails (fst (handleSearchChange a st raw)) =
             fst (hydrateBatch a (initialBatchUrls (allPokemonUrls st))))
      \<or> (\<not> loading (fst (handleSearchChange a st raw)) \<and> allPokemonUrls st \<noteq> []
         \<and> (\<exists>url d. fst (fetchPokemonDetail a url) = Some d
                \<and> pokemonDetails (fst (handleSearchChange a st raw)) = [d])))"
proof (cases "raw = []")
  case True
  then show ?thesis
    by (cases "allPokemonUrls st = []")
      (simp_all add: handleSearchChange_empty_no_index handleSearchChange_empty_index(1))
next
  case False
  note raw = this
  show ?thesis
  proof (cases "filteredInDisplay st (toLowerCase raw) = []")
    case False
    with raw show ?thesis
      by (simp add: handleSearchChange_hit)
  next
    case True
    note miss = this
    show ?thesis
    proof (cases "foundPokemonUrl st (toLowerCase raw)")
      case None
      with raw miss show ?thesis
        by (simp add: handleSearchChange_not_found)
    next
      case (Some p)
      then have index: "allPokemonUrls st \<noteq> []"
        by (auto dest: foundPokemonUrl_Some)
      show ?thesis
      proof (cases "pokemonDetails st \<noteq> [] \<or> loading st")
        case True
        show ?thesis
        proof (cases "fst (fetchPokemonDetail a (p_url p))")
          case None
          then show ?thesis
            by (simp add: handleSearchChange_found_no_batch [OF raw miss Some True])
        next
          case (Some d)
          with index show ?thesis
            by (auto simp: handleSearchChange_found_no_batch [OF raw miss \<open>foundPokemonUrl st (toLowerCase raw) = Some p\<close> True])
        qed
      next
        case False
        then have "pokemonDetails st = []" "\<not> loading st" by simp_all
        from handleSearchChange_found_rehydrates [OF raw this Some] index show ?thesis
          by simp
      qed
    qed
  qed
qed

lemma hydrateBatch_origin:
  "d \<in> set (fst (hydrateBatch a batch)) \<Longrightarrow>
   \<exists>p \<in> set batch. fst (fetchPokemonDetail a (p_url p)) = Some d"
  by (auto simp: fst_hydrateBatch map_filter_def)

lemma fetchAllUrls_details: "pokemonDetails (fst (fetchAllUrls a st)) = pokemonDetails st"
  by (simp add: fetchAllUrls_def Let_def split: response.splits option.splits)

lemma fetchAllUrls_loading: "loading (fst (fetchAllUrls a st)) \<Longrightarrow> loading st"
  by (simp add: fetchAllUrls_def Let_def split: response.splits option.splits if_splits)

lemma loadUrlsEffect_inv: "index_inv st \<Longrightarrow> index_inv (fst (loadUrlsEffect a st))"
  by (auto simp: index_inv_def loadUrlsEffect_def fetchAllUrls_details)

lemma fetchInitialDisplayData_inv:
  "index_inv st \<Longrightarrow> index_inv (fst (fetchInitialDisplayData a st))"
  by (cases "allPokemonUrls st = []")
    (simp_all add: index_inv_def fetchInitialDisplayData_loaded fetchInitialDisplayData_empty)

lemma initialDisplayEffect_inv:
  "index_inv st \<Longrightarrow> index_inv (fst (initialDisplayEffect a st))"
  by (simp add: initialDisplayEffect_def fetchInitialDisplayData_inv) (simp add: index_inv_def)

lemma handleSearchChange_inv:
  assumes "index_inv st"
  shows "index_inv (fst (handleSearchChange a st raw))"
  using assms handleSearchChange_shape [of a st raw]
  by (auto simp: index_inv_def)

lemma reachable_index_inv: "reachable a st \<Longrightarrow> index_inv st"
proof (induction rule: reachable.induct)
  case reach_init
  show ?case by (simp add: index_inv_def initial_state_def)
next
  case (reach_loadUrls st)
  then show ?case by (simp add: loadUrlsEffect_inv)
next
  case (reach_initialDisplay st)
  then show ?case by (simp add: initialDisplayEffect_inv)
next
  case (reach_search st raw)
  then show ?case by (simp add: handleSearchChange_inv)
qed

text \<open>Hydrated records are on screen: \<open>loading\<close> is clear whenever something is hydrated.\<close>

lemma reachable_hydrated_not_loading:
  "reachable a st \<Longrightarrow> pokemonDetails st \<noteq> [] \<Longrightarrow> \<not> loading st"
proof (induction rule: reachable.induct)
  case reach_init
  then show ?case by (simp add: initial_state_def)
next
  case (reach_loadUrls st)
  then show ?case
    by (auto simp: loadUrlsEffect_def fetchAllUrls_details dest: fetchAllUrls_loading
          split: if_splits)
next
  case (reach_initialDisplay st)
  then show ?case
    by (auto simp: initialDisplayEffect_def fetchInitialDisplayData_loaded split: if_splits)
next
  case (reach_search st raw)
  then show ?case
    using handleSearchChange_shape [of a st raw] by auto
qed

text \<open>Under an API whose detail pages carry lower-case names, so does every hydrated record.\<close>

lemma fetchPokemonDetail_lowerCase:
  assumes "lowerCaseNames a" and "fst (fetchPokemonDetail a url) = Some d"
  shows "toLowerCase (name d) = name d"
  using assms(2)
proof (rule fetchPokemonDetail_SomeE)
  fix status detailData reqs
  assume "fetch_detail a url = Response True status (Some detailData)"
    and d: "d = \<lparr>name = dd_name detailData, id_no = dd_id detailData,
                 sprites = dd_sprites detailData, types = dd_types detailData,
                 weaknesses = weaknesses d\<rparr>"
  with assms(1) have "toLowerCase (dd_name detailData) = dd_name detailData"
    by (auto simp: lowerCaseNames_def split: response.splits option.splits
          dest: spec [of _ url])
  moreover from d have "name d = dd_name detailData"
    by (metis pokemon_detail.select_convs(1))
  ultimately show ?thesis by simp
qed

lemma reachable_lowerCase:
  assumes "lowerCaseNames a"
  shows "reachable a st \<Longrightarrow> \<forall>p \<in> set (pokemonDetails st). toLowerCase (name p) = name p"
proof (induction rule: reachable.induct)
  case reach_init
  show ?case by (simp add: initial_state_def)
next
  case (reach_loadUrls st)
  then show ?case
    by (simp add: loadUrlsEffect_def fetchAllUrls_details)
next
  case (reach_initialDisplay st)
  then show ?case
    by (auto simp: initialDisplayEffect_def fetchInitialDisplayData_loaded
          dest!: hydrateBatch_origin fetchPokemonDetail_lowerCase [OF assms])
next
  case (reach_search st raw)
  then show ?case
    using handleSearchChange_shape [of a st raw]
    by (auto dest!: hydrateBatch_origin fetchPokemonDetail_lowerCase [OF assms])
qed


text \<open>
  The handler leaves \<open>loading\<close> clear, so that the second effect, whose two branches
  need \<open>loading\<close>, does nothing in the state the handler leaves.
\<close>

lemma handleSearchChange_not_loading:
  assumes "reachable a st"
  shows "\<not> loading (fst (handleSearchChange a st raw))"
proof (cases "raw = []")
  case True
  then show ?thesis
    by (cases "allPokemonUrls st = []")
      (simp_all add: handleSearchChange_empty_no_index handleSearchChange_empty_index(1))
next
  case False
  note raw = this
  show ?thesis
  proof (cases "filteredInDisplay st (toLowerCase raw) = []")
    case False
    then have "pokemonDetails st \<noteq> []"
      by (auto simp: filteredInDisplay_def)
    with assms have "\<not> loading st"
      by (rule reachable_hydrated_not_loading)
    with raw False show ?thesis
      by (simp add: handleSearchChange_hit)
  next
    case True
    note miss = this
    show ?thesis
    proof (cases "foundPokemonUrl st (toLowerCase raw)")
      case None
      with raw miss show ?thesis
        by (simp add: handleSearchChange_not_found)
    next
      case (Some p)
      show ?thesis
      proof (cases "pokemonDetails st \<noteq> [] \<or> loading st")
        case True
        show ?thesis
          by (simp add: handleSearchChange_found_no_batch [OF raw miss Some True])
      next
        case False
        then have "pokemonDetails st = []" "\<not> loading st" by simp_all
        from handleSearchChange_found_rehydrates [OF raw this Some] show ?thesis
          by simp
      qed
    qed
  qed
qed

lemma initialDisplayEffect_idle_after_handler:
  assumes "reachable a st"
  shows "initialDisplayEffect a (fst (handleSearchChange a st raw)) =
           (fst (handleSearchChange a st raw), [])"
  using handleSearchChange_not_loading [OF assms, of raw]
  by (simp add: initialDisplayEffect_def)

lemma sibling_loaded_run:
  "fst (initialDisplayEffect sibling_api (fst (loadUrlsEffect sibling_api initial_state))) =
     sibling_loaded"
  by code_simp

lemma sibling_emptied_run:
  "fst (handleSearchChange sibling_api sibling_loaded ''zzz'') = sibling_emptied"
  by code_simp

section \<open>The empty query\<close>

text \<open>
  C4. In every state in which nothing is hydrated while the index is empty (every state
  of a session is one), an empty query clears the search term, runs the hydration of
  the initial window again and shows all of its records: the hydrated set and the cards
  on screen are the records of the first \<open>POKEMON_DISPLAY_LIMIT\<close> index entries, the
  same list that the initial load produces from this index. The requests issued are
  those of the hydration of the window.
\<close>

theorem empty_query_restores_window:
  assumes "index_inv st"
  shows "searchTerm (fst (handleSearchChange a st [])) = []
         \<and> \<not> loading (fst (handleSearchChange a st []))
         \<and> pokemonDetails (fst (handleSearchChange a st [])) =
             fst (hydrateBatch a (initialBatchUrls (allPokemonUrls st)))
         \<and> set (snd (handleSearchChange a st [])) =
             set (snd (hydrateBatch a (initialBatchUrls (allPokemonUrls st))))
         \<and> visibleCards (fst (handleSearchChange a st [])) =
             pokemonDetails (fst (handleSearchChange a st []))
         \<and> pokemonDetails (fst (handleSearchChange a st [])) =
             pokemonDetails
               (fst (initialDisplayEffect a (initial_state\<lparr>allPokemonUrls := allPokemonUrls st\<rparr>)))"
proof (cases "allPokemonUrls st = []")
  case True
  with assms have "pokemonDetails st = []"
    by (simp add: index_inv_def)
  with True show ?thesis
    by (simp add: handleSearchChange_empty_no_index visibleCards_def filteredPokemon_def
          initialDisplayEffect_def initial_state_def initialBatchUrls_def hydrateBatch_def)
next
  case False
  then have "set (snd (handleSearchChange a st [])) =
             set (snd (hydrateBatch a (initialBatchUrls (allPokemonUrls st))))"
    by (auto simp: handleSearchChange_empty_index(2))
  with False show ?thesis
    by (simp add: handleSearchChange_empty_index(1) visibleCards_def filteredPokemon_def
          initialDisplayEffect_def initial_state_def fetchInitialDisplayData_loaded)
qed

theorem empty_query_restores_window_witness:
  "index_inv sample_emptied
   \<and> searchTerm sample_emptied = ''zzz''
   \<and> visibleCards sample_emptied = []
   \<and> visibleCards (fst (handleSearchChange sample_api sample_emptied [])) = [paras, pikachu]
   \<and> pokemonDetails (fst (initialDisplayEffect sample_api
        (fst (loadUrlsEffect sample_api initial_state)))) = [paras, pikachu]"
proof -
  have h: "index_inv sample_emptied" by code_simp
  have s: "searchTerm sample_emptied = ''zzz''" "visibleCards sample_emptied = []"
    by code_simp+
  have l: "fst (loadUrlsEffect sample_api initial_state) =
           initial_state\<lparr>allPokemonUrls := allPokemonUrls sample_emptied\<rparr>"
    by code_simp
  have b: "fst (hydrateBatch sample_api (initialBatchUrls (allPokemonUrls sample_emptied)))
           = [paras, pikachu]"
    by code_simp
  note t = empty_query_restores_window [OF h, of sample_api]
  from t b have d: "pokemonDetails (fst (handleSearchChange sample_api sample_emptied [])) =
                    [paras, pikachu]"
    by simp
  from t d have v: "visibleCards (fst (handleSearchChange sample_api sample_emptied [])) =
                    [paras, pikachu]"
    by simp
  from t d have "pokemonDetails (fst (initialDisplayEffect sample_api
                   (initial_state\<lparr>allPokemonUrls := allPokemonUrls sample_emptied\<rparr>))) =
                 [paras, pikachu]"
    by (elim conjE) (erule trans [OF sym])
  with h s v show ?thesis
    unfolding l by simp
qed

section \<open>Queries that are not empty\<close>

text \<open>
  C8. A query that is not empty and whose lower-cased form occurs in no hydrated name
  and in no index name empties the hydrated set without a request; no card is on
  screen and the "no results" paragraph is rendered. A query that matches no name
  case-insensitively is such a query (\<open>str_includes_toLowerCase\<close>).
\<close>

theorem no_match_anywhere_shows_no_results:
  assumes "raw \<noteq> []"
    and "\<forall>p \<in> set (pokemonDetails st). \<not> str_includes (name p) (toLowerCase raw)"
    and "\<forall>p \<in> set (allPokemonUrls st). \<not> str_includes (p_name p) (toLowerCase raw)"
  shows "pokemonDetails (fst (handleSearchChange a st raw)) = []
         \<and> visibleCards (fst (handleSearchChange a st raw)) = []
         \<and> showsNoResults (fst (handleSearchChange a st raw))
         \<and> snd (handleSearchChange a st raw) = []"
proof -
  from assms(2) have miss: "filteredInDisplay st (toLowerCase raw) = []"
    by (simp add: filteredInDisplay_Nil)
  from assms(3) have none: "foundPokemonUrl st (toLowerCase raw) = None"
    by (simp add: foundPokemonUrl_None)
  from assms(1) have "toLowerCase raw \<noteq> []"
    by (simp add: toLowerCase_Nil)
  then show ?thesis
    by (simp add: handleSearchChange_not_found [OF assms(1) miss none] visibleCards_def
          showsNoResults_def filteredPokemon_def)
qed

theorem no_match_anywhere_shows_no_results_witness:
  "''zzz'' \<noteq> []
   \<and> filteredInDisplay sample_loaded (toLowerCase ''zzz'') = []
   \<and> foundPokemonUrl sample_loaded (toLowerCase ''zzz'') = None
   \<and> visibleCards sample_loaded = [paras, pikachu]
   \<and> fst (handleSearchChange sample_api sample_loaded ''zzz'') = sample_emptied
   \<and> visibleCards sample_emptied = []
   \<and> showsNoResults sample_emptied"
proof -
  have h1: "''zzz'' \<noteq> []" by simp
  have h2: "\<forall>p \<in> set (pokemonDetails sample_loaded). \<not> str_includes (name p) (toLowerCase ''zzz'')"
    by code_simp
  have h3: "\<forall>p \<in> set (allPokemonUrls sample_loaded). \<not> str_includes (p_name p) (toLowerCase ''zzz'')"
    by code_simp
  have e: "fst (handleSearchChange sample_api sample_loaded ''zzz'') = sample_emptied"
    by code_simp
  have v: "visibleCards sample_loaded = [paras, pikachu]"
    by code_simp
  from no_match_anywhere_shows_no_results [OF h1 h2 h3, of sample_api] h2 h3 v show ?thesis
    unfolding e by (simp add: filteredInDisplay_Nil foundPokemonUrl_None)
qed


text \<open>
  When some record is hydrated and the hydration of the index entry returns \<open>null\<close>,
  the handler's \<open>setPokemonDetails([])\<close> (line 183) is the last update: nothing is
  hydrated and no card is on screen.
\<close>

lemma failed_hydration_empties_hydrated_set:
  assumes "raw \<noteq> []"
    and "pokemonDetails st \<noteq> []"
    and "filteredInDisplay st (toLowerCase raw) = []"
    and "foundPokemonUrl st (toLowerCase raw) = Some p"
    and "fst (fetchPokemonDetail a (p_url p)) = None"
  shows "pokemonDetails (fst (handleSearchChange a st raw)) = []"
    and "visibleCards (fst (handleSearchChange a st raw)) = []"
    and "showsNoResults (fst (handleSearchChange a st raw))"
    and "snd (handleSearchChange a st raw) = snd (fetchPokemonDetail a (p_url p))"
proof -
  from assms(2) have "pokemonDetails st \<noteq> [] \<or> loading st" by simp
  note run = handleSearchChange_found_no_batch [OF assms(1,3,4) this]
  from assms(1) have "toLowerCase raw \<noteq> []"
    by (simp add: toLowerCase_Nil)
  then show "pokemonDetails (fst (handleSearchChange a st raw)) = []"
    and "visibleCards (fst (handleSearchChange a st raw)) = []"
    and "showsNoResults (fst (handleSearchChange a st raw))"
    and "snd (handleSearchChange a st raw) = snd (fetchPokemonDetail a (p_url p))"
    by (simp_all add: run assms(5) visibleCards_def showsNoResults_def filteredPokemon_def)
qed

text \<open>
  C10 on the code. Nothing is hydrated: the query \<open>zzz\<close> came before. The query \<open>pika\<close>
  occurs in no hydrated name, and the first index entry that contains it is \<open>pikachu\<close>,
  whose detail page answers 503. The handler sets \<open>loading\<close> (line 169) and awaits the
  hydration (line 174); at that render the second effect finds an index, nothing
  hydrated and \<open>loading\<close> set (line 138) and hydrates the window (line 139). The handler
  empties the hydrated set (line 183), then the batch fills it (line 97): the record of
  the second index entry, whose name contains the query, is on screen.
\<close>

theorem failed_hydration_window_reloaded:
  "fst (handleSearchChange sibling_api sibling_loaded ''zzz'') = sibling_emptied
   \<and> pokemonDetails sibling_emptied = []
   \<and> filteredInDisplay sibling_emptied (toLowerCase ''pika'') = []
   \<and> foundPokemonUrl sibling_emptied (toLowerCase ''pika'') =
       Some \<lparr>p_name = ''pikachu'', p_url = ''pokemon/25''\<rparr>
   \<and> fetchPokemonDetail sibling_api ''pokemon/25'' = (None, [DetailRequest ''pokemon/25''])
   \<and> pokemonDetails (fst (handleSearchChange sibling_api sibling_emptied ''pika'')) =
       [pikachu_libre]
   \<and> visibleCards (fst (handleSearchChange sibling_api sibling_emptied ''pika'')) =
       [pikachu_libre]
   \<and> \<not> showsNoResults (fst (handleSearchChange sibling_api sibling_emptied ''pika''))"
  by code_simp

text \<open>
  C3, as stated, fails, at three inputs. The query \<open>missing\<close> occurs in no hydrated name
  and in the index name \<open>missingno\<close>, whose detail page answers 404: no card is on
  screen. The query \<open>p\<close>, entered when nothing is hydrated, hydrates Paras, and the
  window that the second effect reloads at the handler's \<open>await\<close> replaces it: two
  cards are on screen. The query \<open>pika\<close> finds an index entry of that name whose
  detail page carries the name \<open>paras\<close>: that record is hydrated and no card is on
  screen.
\<close>

theorem index_only_match_counterexample:
  "filteredInDisplay sample_loaded (toLowerCase ''missing'') = []
   \<and> foundPokemonUrl sample_loaded (toLowerCase ''missing'') =
       Some \<lparr>p_name = ''missingno'', p_url = ''pokemon/0''\<rparr>
   \<and> visibleCards (fst (handleSearchChange sample_api sample_loaded ''missing'')) = []
   \<and> filteredInDisplay sample_emptied (toLowerCase ''p'') = []
   \<and> foundPokemonUrl sample_emptied (toLowerCase ''p'') =
       Some \<lparr>p_name = ''paras'', p_url = ''pokemon/46''\<rparr>
   \<and> visibleCards (fst (handleSearchChange sample_api sample_emptied ''p'')) = [paras, pikachu]
   \<and> filteredInDisplay mislabelled_state (toLowerCase ''pika'') = []
   \<and> foundPokemonUrl mislabelled_state (toLowerCase ''pika'') =
       Some \<lparr>p_name = ''pikachu'', p_url = ''pokemon/46''\<rparr>
   \<and> pokemonDetails (fst (handleSearchChange sample_api mislabelled_state ''pika'')) = [paras]
   \<and> visibleCards (fst (handleSearchChange sample_api mislabelled_state ''pika'')) = []"
  by code_simp

text \<open>
  C3, amended. When some record is hydrated, the lower-cased query occurs in no
  hydrated name and occurs in an index name, the handler hydrates the first such index
  entry and no other; if that hydration produces a record, and the record carries the
  name of the index entry, the hydrated set becomes that one record, with nothing of
  the previous window, and the cards on screen are that one record, whose name matches
  the query.
\<close>

theorem index_only_match_shows_one:
  assumes "raw \<noteq> []"
    and "pokemonDetails st \<noteq> []"
    and "filteredInDisplay st (toLowerCase raw) = []"
    and "foundPokemonUrl st (toLowerCase raw) = Some p"
    and "fst (fetchPokemonDetail a (p_url p)) = Some d"
    and "name d = p_name p"
  shows "pokemonDetails (fst (handleSearchChange a st raw)) = [d]
         \<and> visibleCards (fst (handleSearchChange a st raw)) = [d]
         \<and> str_includes (toLowerCase (name d)) (toLowerCase raw)
         \<and> snd (handleSearchChange a st raw) = snd (fetchPokemonDetail a (p_url p))
         \<and> filter isDetailRequest (snd (handleSearchChange a st raw)) = [DetailRequest (p_url p)]"
proof -
  from assms(4) have "str_includes (p_name p) (toLowerCase raw)"
    by (simp add: foundPokemonUrl_Some)
  then have "str_includes (toLowerCase (p_name p)) (toLowerCase (toLowerCase raw))"
    by (rule str_includes_toLowerCase)
  with assms(6) have match: "str_includes (toLowerCase (name d)) (toLowerCase raw)"
    by (simp add: toLowerCase_idem)
  from assms(2) have "pokemonDetails st \<noteq> [] \<or> loading st" by simp
  note run = handleSearchChange_found_no_batch [OF assms(1,3,4) this]
  from assms(1) have "toLowerCase raw \<noteq> []"
    by (simp add: toLowerCase_Nil)
  with match show ?thesis
    by (simp add: run assms(5) visibleCards_def filteredPokemon_def
          fetchPokemonDetail_requests)
qed

theorem index_only_match_shows_one_witness:
  "''pika'' \<noteq> []
   \<and> pokemonDetails outage_loaded = [paras]
   \<and> filteredInDisplay outage_loaded (toLowerCase ''pika'') = []
   \<and> foundPokemonUrl outage_loaded (toLowerCase ''pika'') =
       Some \<lparr>p_name = ''pikachu'', p_url = ''pokemon/25''\<rparr>
   \<and> fst (fetchPokemonDetail sample_api ''pokemon/25'') = Some pikachu
   \<and> name pikachu = ''pikachu''
   \<and> pokemonDetails (fst (handleSearchChange sample_api outage_loaded ''pika'')) = [pikachu]
   \<and> visibleCards (fst (handleSearchChange sample_api outage_loaded ''pika'')) = [pikachu]"
proof -
  let ?p = "\<lparr>p_name = ''pikachu'', p_url = ''pokemon/25''\<rparr>"
  have h1: "''pika'' \<noteq> []" by simp
  have w: "pokemonDetails outage_loaded = [paras]" by code_simp
  then have h2: "pokemonDetails outage_loaded \<noteq> []" by simp
  have h3: "filteredInDisplay outage_loaded (toLowerCase ''pika'') = []" by code_simp
  have h4: "foundPokemonUrl outage_loaded (toLowerCase ''pika'') = Some ?p" by code_simp
  have h5: "fst (fetchPokemonDetail sample_api (p_url ?p)) = Some pikachu" by code_simp
  have h6: "name pikachu = p_name ?p" by code_simp
  from index_only_match_shows_one [OF h1 h2 h3 h4 h5 h6] h3 h4 h5 h6 w show ?thesis
    by simp
qed

section \<open>Failing type fetches\<close>

lemma type_loop_no_throw:
  assumes "\<forall>t \<in> set ts. \<not> typeFetchThrows a (type_url t)"
  shows "type_loop a ts ws =
           (Some (foldl push_unique ws
                    (concat (map (\<lambda>t. doubleDamageFrom a (type_url t))
                               (filter (\<lambda>t. typeFetchOk a (type_url t)) ts)))),
            map (\<lambda>t. TypeRequest (type_url t)) ts)"
  using assms
proof (induction ts arbitrary: ws)
  case Nil
  show ?case by simp
next
  case (Cons t ts)
  then have IH: "type_loop a ts ws' =
           (Some (foldl push_unique ws'
                    (concat (map (\<lambda>t. doubleDamageFrom a (type_url t))
                               (filter (\<lambda>t. typeFetchOk a (type_url t)) ts)))),
            map (\<lambda>t. TypeRequest (type_url t)) ts)" for ws'
    by simp
  from Cons.prems have "\<not> typeFetchThrows a (type_url t)"
    by simp
  then show ?case
    by (cases "fetch_type a (type_url t)")
      (auto simp: IH typeFetchThrows_def typeFetchOk_def doubleDamageFrom_def)
qed

text \<open>
  C5, as stated, fails: the detail fetch for Paras succeeds and the fetch of its second
  type is rejected (a network error); no record is produced.
\<close>

theorem type_fetch_rejected_counterexample:
  "fetch_detail type_outage_api ''pokemon/46'' = Response True 200 (Some paras_data)
   \<and> map type_url (dd_types paras_data) = [''type/7'', ''type/12'']
   \<and> fetch_type type_outage_api ''type/12'' = NetworkError
   \<and> fetchPokemonDetail type_outage_api ''pokemon/46'' =
       (None, [DetailRequest ''pokemon/46'', TypeRequest ''type/7'', TypeRequest ''type/12''])"
  by code_simp

text \<open>
  C5, amended. For a creature whose detail fetch succeeded, if no fetch of a type of
  the creature throws (no rejected \<open>fetch\<close>, no \<open>json()\<close> that throws), the record is
  produced, and its weaknesses are accumulated, without duplicates, from the types
  whose fetch returned an \<open>ok\<close> response: a type whose fetch returns a response that is
  not \<open>ok\<close> contributes nothing.
\<close>

theorem non_ok_type_fetch_skipped:
  assumes "fetch_detail a url = Response True status (Some detailData)"
    and "\<forall>t \<in> set (dd_types detailData). \<not> typeFetchThrows a (type_url t)"
  shows "fst (fetchPokemonDetail a url) =
           Some \<lparr>name = dd_name detailData, id_no = dd_id detailData,
                 sprites = dd_sprites detailData, types = dd_types detailData,
                 weaknesses =
                   foldl push_unique []
                     (concat (map (\<lambda>t. doubleDamageFrom a (type_url t))
                                (filter (\<lambda>t. typeFetchOk a (type_url t))
                                   (dd_types detailData))))\<rparr>"
  by (simp add: fetchPokemonDetail_def assms(1) type_loop_no_throw [OF assms(2)])

theorem non_ok_type_fetch_skipped_witness:
  "fetch_detail type_error_api ''pokemon/46'' = Response True 200 (Some paras_data)
   \<and> map type_url (dd_types paras_data) = [''type/7'', ''type/12'']
   \<and> fetch_type type_error_api ''type/12'' = Response False 500 None
   \<and> \<not> typeFetchThrows type_error_api ''type/7''
   \<and> \<not> typeFetchThrows type_error_api ''type/12''
   \<and> fst (fetchPokemonDetail type_error_api ''pokemon/46'') =
       Some (paras\<lparr>weaknesses := [''flying'', ''rock'', ''fire'']\<rparr>)"
proof -
  have h1: "fetch_detail type_error_api ''pokemon/46'' = Response True 200 (Some paras_data)"
    by code_simp
  have h2: "\<forall>t \<in> set (dd_types paras_data). \<not> typeFetchThrows type_error_api (type_url t)"
    by code_simp
  have u: "map type_url (dd_types paras_data) = [''type/7'', ''type/12'']"
    by code_simp
  have f: "fetch_type type_error_api ''type/12'' = Response False 500 None"
    by code_simp
  have t: "\<not> typeFetchThrows type_error_api ''type/7''" "\<not> typeFetchThrows type_error_api ''type/12''"
    by code_simp+
  have r: "\<lparr>name = dd_name paras_data, id_no = dd_id paras_data,
            sprites = dd_sprites paras_data, types = dd_types paras_data,
            weaknesses =
              foldl push_unique []
                (concat (map (\<lambda>t. doubleDamageFrom type_error_api (type_url t))
                           (filter (\<lambda>t. typeFetchOk type_error_api (type_url t))
                              (dd_types paras_data))))\<rparr>
           = paras\<lparr>weaknesses := [''flying'', ''rock'', ''fire'']\<rparr>"
    by code_simp
  from non_ok_type_fetch_skipped [OF h1 h2] h1 u f t show ?thesis
    unfolding r by simp
qed

section \<open>A failed index load\<close>

text \<open>
  When the index fetch fails on mount, the message is set, \<open>loading\<close> is cleared and
  one request has been issued. In the state this leaves, neither effect does anything,
  and a query that is not empty issues no request and keeps the message.
\<close>

lemma index_load_failure:
  assumes "indexFetchFails a"
  shows "loadUrlsEffect a initial_state =
           (initial_state\<lparr>error := Some IndexLoadError, loading := False\<rparr>,
            [ListRequest POKEMON_TOTAL_LIMIT])"
    and "showsError (fst (loadUrlsEffect a initial_state))"
    and "loadUrlsEffect a (fst (loadUrlsEffect a initial_state)) =
           (fst (loadUrlsEffect a initial_state), [])"
    and "initialDisplayEffect a (fst (loadUrlsEffect a initial_state)) =
           (fst (loadUrlsEffect a initial_state), [])"
    and "raw \<noteq> [] \<Longrightarrow>
         handleSearchChange a (fst (loadUrlsEffect a initial_state)) raw =
           (initial_state\<lparr>error := Some IndexLoadError, loading := False,
                          searchTerm := toLowerCase raw\<rparr>, [])"
proof -
  show 1: "loadUrlsEffect a initial_state =
           (initial_state\<lparr>error := Some IndexLoadError, loading := False\<rparr>,
            [ListRequest POKEMON_TOTAL_LIMIT])"
    using assms
    by (simp add: loadUrlsEffect_def fetchAllUrls_def indexFetchFails_def initial_state_def
             Let_def split: response.splits)
  show "showsError (fst (loadUrlsEffect a initial_state))"
    by (simp add: 1 showsError_def)
  show "loadUrlsEffect a (fst (loadUrlsEffect a initial_state)) =
           (fst (loadUrlsEffect a initial_state), [])"
    by (simp add: 1) (simp add: loadUrlsEffect_def)
  show "initialDisplayEffect a (fst (loadUrlsEffect a initial_state)) =
           (fst (loadUrlsEffect a initial_state), [])"
    by (simp add: 1) (simp add: initialDisplayEffect_def initial_state_def)
  show "handleSearchChange a (fst (loadUrlsEffect a initial_state)) raw =
           (initial_state\<lparr>error := Some IndexLoadError, loading := False,
                          searchTerm := toLowerCase raw\<rparr>, [])" if "raw \<noteq> []"
    unfolding 1 fst_conv
    by (subst handleSearchChange_not_found [OF that])
      (simp_all add: filteredInDisplay_def foundPokemonUrl_def initial_state_def)
qed

text \<open>The three states of the session against \<open>index_down_api\<close>.\<close>

lemma index_down_fails: "indexFetchFails index_down_api"
  by (simp add: indexFetchFails_def index_down_api_def)

lemma index_down_mounted_eq:
  "index_down_mounted = initial_state\<lparr>error := Some IndexLoadError, loading := False\<rparr>"
  by (simp add: index_down_mounted_def index_load_failure(1) [OF index_down_fails])

lemma index_down_typed_eq:
  "index_down_typed =
     initial_state\<lparr>error := Some IndexLoadError, loading := False, searchTerm := ''a''\<rparr>"
proof -
  have "toLowerCase ''a'' = ''a''"
    by code_simp
  then show ?thesis
    by (simp add: index_down_typed_def index_down_mounted_def
          index_load_failure(5) [OF index_down_fails])
qed

lemma index_down_cleared_eq: "index_down_cleared = initial_state\<lparr>loading := False\<rparr>"
  by (simp add: index_down_cleared_def index_down_typed_eq handleSearchChange_empty_no_index
        initial_state_def)

text \<open>
  C6 on the code. The listing endpoint answers 503. After the failed load the message
  is shown. The user types \<open>a\<close>, then deletes it: the empty value calls
  \<open>fetchInitialDisplayData\<close>, whose \<open>setError(null)\<close> (line 82) comes before its test
  for an empty index (line 84). The message is gone, \<open>error\<close> is a dependency of the
  first effect and has changed, the guard of line 130 holds again, and the index fetch
  is issued a second time.
\<close>

theorem index_fetch_retried_after_clearing_search:
  "indexFetchFails index_down_api
   \<and> snd (loadUrlsEffect index_down_api initial_state) = [ListRequest POKEMON_TOTAL_LIMIT]
   \<and> error index_down_mounted = Some IndexLoadError
   \<and> showsError index_down_typed
   \<and> error index_down_cleared = None
   \<and> \<not> showsError index_down_cleared
   \<and> loadUrlsDeps index_down_typed \<noteq> loadUrlsDeps index_down_cleared
   \<and> snd (rerunLoadUrlsEffect index_down_api index_down_typed index_down_cleared) =
       [ListRequest POKEMON_TOTAL_LIMIT]"
proof -
  have "snd (loadUrlsEffect index_down_api (initial_state\<lparr>loading := False\<rparr>)) =
        [ListRequest POKEMON_TOTAL_LIMIT]"
    by (simp add: loadUrlsEffect_def fetchAllUrls_def index_down_api_def initial_state_def)
  moreover have "snd (loadUrlsEffect index_down_api initial_state) =
                 [ListRequest POKEMON_TOTAL_LIMIT]"
    by (simp add: index_load_failure(1) [OF index_down_fails])
  ultimately show ?thesis
    by (simp add: index_down_fails index_down_mounted_eq index_down_typed_eq
          index_down_cleared_eq showsError_def loadUrlsDeps_def rerunLoadUrlsEffect_def
          initial_state_def)
qed

section \<open>A hit among the hydrated records\<close>

text \<open>
  C7. In a session against an API whose detail pages carry lower-case names, for every
  query that is not empty and that the name of some hydrated record contains
  case-insensitively: the handler issues no request and changes nothing but the search
  term, so the hydrated set is as it was, and the cards on screen are exactly the
  hydrated records whose name contains the query case-insensitively.
\<close>

theorem hit_among_hydrated_filters:
  assumes "lowerCaseNames a"
    and "reachable a st"
    and "raw \<noteq> []"
    and "\<exists>p \<in> set (pokemonDetails st). str_includes (toLowerCase (name p)) (toLowerCase raw)"
  shows "handleSearchChange a st raw = (st\<lparr>searchTerm := toLowerCase raw\<rparr>, [])
         \<and> pokemonDetails (fst (handleSearchChange a st raw)) = pokemonDetails st
         \<and> visibleCards (fst (handleSearchChange a st raw)) =
             filter (\<lambda>p. str_includes (toLowerCase (name p)) (toLowerCase raw))
               (pokemonDetails st)
         \<and> visibleCards (fst (handleSearchChange a st raw)) \<noteq> []"
proof -
  from reachable_lowerCase [OF assms(1,2)]
  have lower: "\<forall>p \<in> set (pokemonDetails st). toLowerCase (name p) = name p" .
  with assms(4) have hit: "filteredInDisplay st (toLowerCase raw) \<noteq> []"
    by (auto simp: filteredInDisplay_Nil)
  then have "pokemonDetails st \<noteq> []"
    by (auto simp: filteredInDisplay_def)
  with assms(2) have shown: "\<not> loading st"
    by (rule reachable_hydrated_not_loading)
  from assms(3) have nonempty: "toLowerCase raw \<noteq> []"
    by (simp add: toLowerCase_Nil)
  from assms(4) have some:
    "filter (\<lambda>p. str_includes (toLowerCase (name p)) (toLowerCase raw)) (pokemonDetails st) \<noteq> []"
    by (simp add: filter_empty_conv)
  from shown nonempty some show ?thesis
    by (simp add: handleSearchChange_hit [OF assms(3) hit] visibleCards_def filteredPokemon_def)
qed

theorem hit_among_hydrated_filters_witness:
  "lowerCaseNames sample_api
   \<and> reachable sample_api sample_loaded
   \<and> ''PIKA'' \<noteq> []
   \<and> str_includes (toLowerCase (name pikachu)) (toLowerCase ''PIKA'')
   \<and> pokemonDetails sample_loaded = [paras, pikachu]
   \<and> handleSearchChange sample_api sample_loaded ''PIKA'' =
       (sample_loaded\<lparr>searchTerm := ''pika''\<rparr>, [])
   \<and> visibleCards (fst (handleSearchChange sample_api sample_loaded ''PIKA'')) = [pikachu]"
proof -
  have h1: "lowerCaseNames sample_api"
  proof -
    have "toLowerCase (dd_name paras_data) = dd_name paras_data"
      and "toLowerCase (dd_name pikachu_data) = dd_name pikachu_data"
      by code_simp+
    then show ?thesis
      by (simp add: lowerCaseNames_def sample_api_def sample_fetch_detail_def)
  qed
  have h2: "reachable sample_api sample_loaded"
    using reach_initialDisplay [OF reach_loadUrls [OF reach_init], of sample_api]
    by (simp add: sample_loaded_run)
  have h3: "''PIKA'' \<noteq> []" by simp
  have m: "str_includes (toLowerCase (name pikachu)) (toLowerCase ''PIKA'')" by code_simp
  have d: "pokemonDetails sample_loaded = [paras, pikachu]" by code_simp
  from m d have h4: "\<exists>p \<in> set (pokemonDetails sample_loaded).
                       str_includes (toLowerCase (name p)) (toLowerCase ''PIKA'')"
    by simp
  have l: "toLowerCase ''PIKA'' = ''pika''" by code_simp
  have f: "filter (\<lambda>p. str_includes (toLowerCase (name p)) ''pika'') [paras, pikachu] = [pikachu]"
    by code_simp
  note t = hit_among_hydrated_filters [OF h1 h2 h3 h4]
  have r: "handleSearchChange sample_api sample_loaded ''PIKA'' =
           (sample_loaded\<lparr>searchTerm := ''pika''\<rparr>, [])"
    using t [THEN conjunct1] by (simp only: l)
  have v: "visibleCards (fst (handleSearchChange sample_api sample_loaded ''PIKA'')) =
           [pikachu]"
    using t [THEN conjunct2, THEN conjunct2, THEN conjunct1] by (simp only: l d f)
  from h1 h2 h3 m d r v show ?thesis
    by simp
qed

end
